theory Spec2Isabelle
  imports Main
begin

section \<open>The relational store behind superAdminController.js\<close>

text \<open>
  The controller talks to four tables through \<^verbatim>\<open>pool.query\<close>. Each table is a list of
  rows; the field prefixes are the aliases the controller's own SQL uses
  (\<^verbatim>\<open>p\<close>, \<^verbatim>\<open>up\<close>, \<^verbatim>\<open>rp\<close>). The column \<^verbatim>\<open>users.role\<close> may be NULL.
  String comparison is exact equality (a binary collation).
\<close>

record permission =
  p_id :: nat
  p_name :: string

record user =
  u_id :: nat
  u_role :: "string option"

record user_permission =
  up_userId :: nat
  up_permissionId :: nat
  up_type :: string

record role_permission =
  rp_role :: string
  rp_permissionId :: nat

text \<open>The statements the controller sends, named after their SQL text.\<close>

datatype statement =
    SELECT_role_FROM_users
  | SELECT_name_type_FROM_user_permissions
  | SELECT_name_FROM_role_permissions
  | SELECT_id_name_FROM_permissions_IN
  | SELECT_id_FROM_permissions
  | INSERT_user_permissions_VALUES
  | DELETE_user_permissions_pair
  | INSERT_user_permissions_row
  | DELETE_user_permissions_user
  | DELETE_role_permissions
  | INSERT_role_permissions_VALUES

text \<open>
  The connection pool: the four tables, one parameter of the schema, and the two things
  a request can observe of the backend.

  \<^item> \<open>pair_key\<close>: the declaration of table \<^verbatim>\<open>user_permissions\<close> is not part of the
    sources, so whether it carries a unique key over \<^verbatim>\<open>(userId, permissionId)\<close> is a
    parameter. It decides what \<^verbatim>\<open>ON DUPLICATE KEY UPDATE\<close> does.
  \<^item> \<open>answers\<close>: \<open>None\<close> when the backend answers every statement, \<open>Some n\<close> when it
    answers \<open>n\<close> more statements and rejects every later one (the promise of
    \<^verbatim>\<open>pool.query\<close> rejects and the handler's \<^verbatim>\<open>catch\<close> runs).
  \<^item> \<open>issued\<close>: the statements sent so far, oldest first.
\<close>

record pool =
  permissions :: "permission list"
  users :: "user list"
  user_permissions :: "user_permission list"
  role_permissions :: "role_permission list"
  pair_key :: bool
  answers :: "nat option"
  issued :: "statement list"

section \<open>Responses\<close>

record user_data =
  userId :: nat
  role :: string
  effectivePermissions :: "string list"
  rolePermissions :: "string list"
  grantedPermissions :: "string list"
  revokedPermissions :: "string list"

record role_data =
  roleId :: string
  roleName :: string
  permissions_field :: "string list"
  userCount :: nat

text \<open>
  \<open>UserData\<close> and \<open>RoleData\<close> are \<^verbatim>\<open>{success: true, data: ...}\<close>, \<open>Success m\<close> is
  \<^verbatim>\<open>{success: true, message: m}\<close>, \<open>Status404 m\<close> and \<open>Status500 m\<close> are
  \<^verbatim>\<open>res.status(...).json({message: m})\<close>.
\<close>

datatype response =
    UserData user_data
  | RoleData role_data
  | Success string
  | Status404 string
  | Status500 string

section \<open>pool.query\<close>

definition rejects :: "pool \<Rightarrow> bool" where
  "rejects w = (answers w = Some 0)"

definition sent :: "statement \<Rightarrow> pool \<Rightarrow> pool" where
  "sent q w = w\<lparr>issued := issued w @ [q], answers := map_option (\<lambda>n. n - 1) (answers w)\<rparr>"

definition respond :: "response \<Rightarrow> pool \<Rightarrow> response \<times> pool" where
  "respond r w = (r, w)"

text \<open>
  Every handler is one \<^verbatim>\<open>try\<close> block whose \<^verbatim>\<open>catch\<close> answers
  \<^verbatim>\<open>res.status(500).json({ message: 'Server error' })\<close>. An awaited query either yields
  its rows to the rest of the handler (the continuation \<open>k\<close>) or throws into that
  \<^verbatim>\<open>catch\<close>. \<open>query_rows\<close> is a SELECT; \<open>query_write\<close> is an INSERT or DELETE, which the
  table may also refuse (\<open>None\<close>).
\<close>

definition query_rows ::
  "statement \<Rightarrow> (pool \<Rightarrow> 'a) \<Rightarrow> ('a \<Rightarrow> pool \<Rightarrow> response \<times> pool) \<Rightarrow> pool \<Rightarrow> response \<times> pool" where
  "query_rows q rows k w =
     (if rejects w then respond (Status500 ''Server error'') (sent q w)
      else k (rows w) (sent q w))"

definition query_write ::
  "statement \<Rightarrow> (pool \<Rightarrow> pool option) \<Rightarrow> (pool \<Rightarrow> response \<times> pool) \<Rightarrow> pool \<Rightarrow> response \<times> pool" where
  "query_write q write k w =
     (if rejects w then respond (Status500 ''Server error'') (sent q w)
      else case write (sent q w) of
             None \<Rightarrow> respond (Status500 ''Server error'') (sent q w)
           | Some w' \<Rightarrow> k w')"

section \<open>The SQL statements\<close>

text \<open>\<^verbatim>\<open>SELECT role FROM users WHERE id = ?\<close>\<close>

definition select_role :: "nat \<Rightarrow> pool \<Rightarrow> string option list" where
  "select_role uid w = map u_role (filter (\<lambda>u. u_id u = uid) (users w))"

text \<open>\<^verbatim>\<open>SELECT p.name, up.type FROM user_permissions up JOIN permissions p
  ON up.permissionId = p.id WHERE up.userId = ?\<close>\<close>

definition select_user_perms :: "nat \<Rightarrow> pool \<Rightarrow> (string \<times> string) list" where
  "select_user_perms uid w =
     [(p_name p, up_type up).
        up \<leftarrow> user_permissions w, up_userId up = uid,
        p \<leftarrow> permissions w, up_permissionId up = p_id p]"

text \<open>\<^verbatim>\<open>SELECT p.name FROM role_permissions rp JOIN permissions p
  ON rp.permissionId = p.id WHERE rp.role = ?\<close>\<close>

definition select_role_perms :: "string \<Rightarrow> pool \<Rightarrow> string list" where
  "select_role_perms r w =
     [p_name p.
        rp \<leftarrow> role_permissions w, rp_role rp = r,
        p \<leftarrow> permissions w, rp_permissionId rp = p_id p]"

text \<open>\<^verbatim>\<open>SELECT id, name FROM permissions WHERE name IN (?)\<close>\<close>

definition select_permissions_in :: "string list \<Rightarrow> pool \<Rightarrow> permission list" where
  "select_permissions_in names w = filter (\<lambda>p. p_name p \<in> set names) (permissions w)"

text \<open>\<^verbatim>\<open>SELECT id FROM permissions WHERE name = ?\<close>\<close>

definition select_permission_id :: "string \<Rightarrow> pool \<Rightarrow> nat list" where
  "select_permission_id n w = map p_id (filter (\<lambda>p. p_name p = n) (permissions w))"

text \<open>
  One row of \<^verbatim>\<open>INSERT INTO user_permissions (userId, permissionId, type) VALUES ...
  ON DUPLICATE KEY UPDATE type = t\<close>: with the unique key and a row of the same pair in
  the table, that row's type becomes \<open>t\<close>; otherwise the new row is added.
\<close>

definition upsert ::
  "bool \<Rightarrow> string \<Rightarrow> nat \<times> nat \<times> string \<Rightarrow> user_permission list \<Rightarrow> user_permission list" where
  "upsert key t v rows =
     (case v of (u, p, t0) \<Rightarrow>
        if key \<and> (\<exists>r \<in> set rows. up_userId r = u \<and> up_permissionId r = p)
        then map (\<lambda>r. if up_userId r = u \<and> up_permissionId r = p then r\<lparr>up_type := t\<rparr> else r) rows
        else rows @ [\<lparr>up_userId = u, up_permissionId = p, up_type = t0\<rparr>])"

text \<open>The bulk form, \<^verbatim>\<open>VALUES ?\<close> with a list of rows, handled in order.\<close>

definition insert_user_permissions ::
  "(nat \<times> nat \<times> string) list \<Rightarrow> string \<Rightarrow> pool \<Rightarrow> pool option" where
  "insert_user_permissions vs t w =
     Some (w\<lparr>user_permissions := fold (upsert (pair_key w) t) vs (user_permissions w)\<rparr>)"

text \<open>
  Modelled from the spec: the declaration of table \<^verbatim>\<open>user_permissions\<close> is not among the
  sources. By the data model a UserPermissionOverride row is
  \<^verbatim>\<open>{userId, permissionId, type}\<close>, so the table refuses a row without a permissionId (the
  driver sends an \<^verbatim>\<open>undefined\<close> parameter as NULL). Otherwise this is the single form,
  \<^verbatim>\<open>VALUES (?, ?, ?) ON DUPLICATE KEY UPDATE type = ?\<close>.
\<close>

definition insert_user_permission ::
  "nat \<Rightarrow> nat option \<Rightarrow> string \<Rightarrow> pool \<Rightarrow> pool option" where
  "insert_user_permission uid pid t w =
     (case pid of
        None \<Rightarrow> None
      | Some p \<Rightarrow> Some (w\<lparr>user_permissions := upsert (pair_key w) t (uid, p, t) (user_permissions w)\<rparr>))"

text \<open>\<^verbatim>\<open>DELETE FROM user_permissions WHERE userId = ? AND permissionId = ?\<close>;
  \<^verbatim>\<open>permissionId = NULL\<close> holds of no row.\<close>

definition delete_user_permission :: "nat \<Rightarrow> nat option \<Rightarrow> pool \<Rightarrow> pool option" where
  "delete_user_permission uid pid w =
     Some (w\<lparr>user_permissions :=
        filter (\<lambda>r. \<not> (up_userId r = uid \<and> Some (up_permissionId r) = pid)) (user_permissions w)\<rparr>)"

text \<open>\<^verbatim>\<open>DELETE FROM user_permissions WHERE userId = ?\<close>\<close>

definition delete_user_permissions :: "nat \<Rightarrow> pool \<Rightarrow> pool option" where
  "delete_user_permissions uid w =
     Some (w\<lparr>user_permissions := filter (\<lambda>r. up_userId r \<noteq> uid) (user_permissions w)\<rparr>)"

text \<open>\<^verbatim>\<open>DELETE FROM role_permissions WHERE role = ?\<close>\<close>

definition delete_role_permissions :: "string \<Rightarrow> pool \<Rightarrow> pool option" where
  "delete_role_permissions r w =
     Some (w\<lparr>role_permissions := filter (\<lambda>rp. rp_role rp \<noteq> r) (role_permissions w)\<rparr>)"

text \<open>\<^verbatim>\<open>INSERT INTO role_permissions (role, permissionId) VALUES ?\<close>\<close>

definition insert_role_permissions :: "(string \<times> nat) list \<Rightarrow> pool \<Rightarrow> pool option" where
  "insert_role_permissions vs w =
     Some (w\<lparr>role_permissions := role_permissions w @
        map (\<lambda>(r, p). \<lparr>rp_role = r, rp_permissionId = p\<rparr>) vs\<rparr>)"

section \<open>JavaScript values\<close>

text \<open>Truthiness of an optional string and of an optional number; an array is always truthy.\<close>

definition truthy_str :: "string option \<Rightarrow> bool" where
  "truthy_str v = (case v of None \<Rightarrow> False | Some s \<Rightarrow> s \<noteq> [])"

definition truthy_num :: "nat option \<Rightarrow> bool" where
  "truthy_num v = (case v of None \<Rightarrow> False | Some n \<Rightarrow> n \<noteq> 0)"

text \<open>\<^verbatim>\<open>a || b\<close> on an optional string and on an optional array.\<close>

definition or_str :: "string option \<Rightarrow> string \<Rightarrow> string" where
  "or_str v d = (case v of None \<Rightarrow> d | Some s \<Rightarrow> if s = [] then d else s)"

definition or_array :: "'a list option \<Rightarrow> 'a list \<Rightarrow> 'a list" where
  "or_array v d = (case v of None \<Rightarrow> d | Some xs \<Rightarrow> xs)"

text \<open>A \<^verbatim>\<open>Set\<close> keeps its elements once each, in insertion order.\<close>

definition Set_add :: "'a \<Rightarrow> 'a list \<Rightarrow> 'a list" where
  "Set_add x s = (if x \<in> set s then s else s @ [x])"

definition Set_delete :: "'a \<Rightarrow> 'a list \<Rightarrow> 'a list" where
  "Set_delete x s = filter (\<lambda>y. y \<noteq> x) s"

definition new_Set :: "'a list \<Rightarrow> 'a list" where
  "new_Set xs = fold Set_add xs []"

section \<open>The handlers\<close>

text \<open>The request body of the override and role-policy mutations: absent fields are \<open>None\<close>.\<close>

record body =
  grantPermissions :: "string list option"
  revokePermissions :: "string list option"
  permissionId :: "nat option"
  type' :: "string option"
  permissionName :: "string option"

text \<open>
  A handler takes \<^verbatim>\<open>req.params.id\<close> (and the body) and the pool, and returns the response
  with the pool it leaves. The code after an awaited query is that query's continuation.
  In \<open>updateUserPermission\<close>, \<open>revoke_step\<close> is the code from the comment
  \<^verbatim>\<open>// Revoke permissions\<close> on, \<open>write_step\<close> the code from \<^verbatim>\<open>if (!type)\<close> on, and
  \<open>answer\<close> the final \<^verbatim>\<open>res.json\<close>.
\<close>

definition getUserPermissions :: "nat \<Rightarrow> pool \<Rightarrow> response \<times> pool" where
  "getUserPermissions uid =
     query_rows SELECT_role_FROM_users (select_role uid) (\<lambda>users'.
       let userRole = (case users' of [] \<Rightarrow> ''User'' | r # _ \<Rightarrow> or_str r ''User'') in
       query_rows SELECT_name_type_FROM_user_permissions (select_user_perms uid) (\<lambda>userPerms.
       query_rows SELECT_name_FROM_role_permissions (select_role_perms userRole) (\<lambda>rolePerms.
         let granted = map fst (filter (\<lambda>up. snd up = ''grant'') userPerms);
             revoked = map fst (filter (\<lambda>up. snd up = ''revoke'') userPerms);
             effectiveSet = new_Set rolePerms;
             effectiveSet = fold Set_add granted effectiveSet;
             effectiveSet = fold Set_delete revoked effectiveSet
         in respond (UserData
              \<lparr>userId = uid, role = userRole, effectivePermissions = effectiveSet,
               rolePermissions = rolePerms, grantedPermissions = granted,
               revokedPermissions = revoked\<rparr>))))"

definition updateUserPermission :: "nat \<Rightarrow> body \<Rightarrow> pool \<Rightarrow> response \<times> pool" where
  "updateUserPermission uid b =
     (if grantPermissions b \<noteq> None \<or> revokePermissions b \<noteq> None then
        let toGrant = or_array (grantPermissions b) [];
            toRevoke = or_array (revokePermissions b) [];
            answer = respond (Success ''User permissions updated'');
            revoke_step =
              (if length toRevoke > 0 then
                 query_rows SELECT_id_name_FROM_permissions_IN (select_permissions_in toRevoke) (\<lambda>perms.
                   if length perms > 0 then
                     query_write INSERT_user_permissions_VALUES
                       (insert_user_permissions (map (\<lambda>p. (uid, p_id p, ''revoke'')) perms) ''revoke'')
                       answer
                   else answer)
               else answer)
        in
          if length toGrant > 0 then
            query_rows SELECT_id_name_FROM_permissions_IN (select_permissions_in toGrant) (\<lambda>perms.
              if length perms > 0 then
                query_write INSERT_user_permissions_VALUES
                  (insert_user_permissions (map (\<lambda>p. (uid, p_id p, ''grant'')) perms) ''grant'')
                  revoke_step
              else revoke_step)
          else revoke_step
      else
        let write_step = (\<lambda>pid.
              if \<not> truthy_str (type' b) then
                query_write DELETE_user_permissions_pair (delete_user_permission uid pid)
                  (respond (Success ''User permission updated''))
              else
                query_write INSERT_user_permissions_row
                  (insert_user_permission uid pid (the (type' b)))
                  (respond (Success ''User permission updated'')))
        in
          if truthy_str (permissionName b) \<and> \<not> truthy_num (permissionId b) then
            query_rows SELECT_id_FROM_permissions (select_permission_id (the (permissionName b))) (\<lambda>perms.
              case perms of
                p # _ \<Rightarrow> write_step (Some p)
              | [] \<Rightarrow> respond (Status404 ''Permission not found''))
          else write_step (permissionId b))"

definition grantUserPermission :: "nat \<Rightarrow> body \<Rightarrow> pool \<Rightarrow> response \<times> pool" where
  "grantUserPermission uid b = updateUserPermission uid (b\<lparr>type' := Some ''grant''\<rparr>)"

definition revokeUserPermission :: "nat \<Rightarrow> body \<Rightarrow> pool \<Rightarrow> response \<times> pool" where
  "revokeUserPermission uid b = updateUserPermission uid (b\<lparr>type' := Some ''revoke''\<rparr>)"

definition resetUserPermissions :: "nat \<Rightarrow> pool \<Rightarrow> response \<times> pool" where
  "resetUserPermissions uid =
     query_write DELETE_user_permissions_user (delete_user_permissions uid)
       (respond (Success ''User permissions reset''))"

definition getRolePermissions :: "string \<Rightarrow> pool \<Rightarrow> response \<times> pool" where
  "getRolePermissions rname =
     query_rows SELECT_name_FROM_role_permissions (select_role_perms rname) (\<lambda>rolePerms.
       respond (RoleData
         \<lparr>roleId = rname, roleName = rname, permissions_field = rolePerms, userCount = 0\<rparr>))"

definition updateRolePermissions :: "string \<Rightarrow> string list option \<Rightarrow> pool \<Rightarrow> response \<times> pool" where
  "updateRolePermissions rname permissionNames =
     query_write DELETE_role_permissions (delete_role_permissions rname)
       (let answer = respond (Success ''Role permissions updated'') in
        if permissionNames \<noteq> None \<and> length (the permissionNames) > 0 then
          query_rows SELECT_id_name_FROM_permissions_IN
            (select_permissions_in (the permissionNames)) (\<lambda>perms.
              if length perms > 0 then
                query_write INSERT_role_permissions_VALUES
                  (insert_role_permissions (map (\<lambda>p. (rname, p_id p)) perms))
                  answer
              else answer)
        else answer)"

section \<open>The specification's sets, over the tables\<close>

text \<open>
  These follow the specification's words (data model, EffectivePermissionSet), not the
  code: the names a role confers, the names a user holds an override of a given type
  for, and the effective set composed of them.
\<close>

definition spec_RolePermissions :: "pool \<Rightarrow> string \<Rightarrow> string set" where
  "spec_RolePermissions w r =
     {n. \<exists>rp \<in> set (role_permissions w). \<exists>p \<in> set (permissions w).
           rp_role rp = r \<and> rp_permissionId rp = p_id p \<and> p_name p = n}"

definition spec_Overrides :: "pool \<Rightarrow> nat \<Rightarrow> string \<Rightarrow> string set" where
  "spec_Overrides w u t =
     {n. \<exists>up \<in> set (user_permissions w). \<exists>p \<in> set (permissions w).
           up_userId up = u \<and> up_type up = t \<and> up_permissionId up = p_id p \<and> p_name p = n}"

definition spec_EffectivePermissionSet :: "pool \<Rightarrow> nat \<Rightarrow> string \<Rightarrow> string set" where
  "spec_EffectivePermissionSet w u r =
     (spec_RolePermissions w r \<union> spec_Overrides w u ''grant'') - spec_Overrides w u ''revoke''"

text \<open>The scenario of the specification: role "Instructor", user 7.\<close>

definition demo_pool :: pool where
  "demo_pool =
     \<lparr>permissions =
        [\<lparr>p_id = 1, p_name = ''create_quiz''\<rparr>, \<lparr>p_id = 2, p_name = ''view_students''\<rparr>,
         \<lparr>p_id = 3, p_name = ''edit_syllabus''\<rparr>],
      users = [\<lparr>u_id = 7, u_role = Some ''Instructor''\<rparr>],
      user_permissions = [],
      role_permissions =
        [\<lparr>rp_role = ''Instructor'', rp_permissionId = 1\<rparr>,
         \<lparr>rp_role = ''Instructor'', rp_permissionId = 2\<rparr>],
      pair_key = True, answers = None, issued = []\<rparr>"

text \<open>The same store with two overrides of user 7 already in place.\<close>

definition demo_overridden :: pool where
  "demo_overridden = demo_pool\<lparr>user_permissions :=
     [\<lparr>up_userId = 7, up_permissionId = 1, up_type = ''revoke''\<rparr>,
      \<lparr>up_userId = 7, up_permissionId = 2, up_type = ''grant''\<rparr>]\<rparr>"

section \<open>Notions used to state the properties\<close>

text \<open>The table effect of the bulk INSERT for the permissions a name list resolved to.\<close>

definition bulk_upsert ::
  "bool \<Rightarrow> nat \<Rightarrow> string \<Rightarrow> permission list \<Rightarrow> user_permission list \<Rightarrow> user_permission list" where
  "bulk_upsert key uid t perms rows = fold (upsert key t) (map (\<lambda>p. (uid, p_id p, t)) perms) rows"

text \<open>The pair an override row is about, and the uniqueness invariant of the data model.\<close>

definition pair_of :: "user_permission \<Rightarrow> nat \<times> nat" where
  "pair_of r = (up_userId r, up_permissionId r)"





text \<open>A request body with no field at all, and a bulk body with both name lists.\<close>

definition no_fields :: body where
  "no_fields = \<lparr>grantPermissions = None, revokePermissions = None, permissionId = None,
     type' = None, permissionName = None\<rparr>"

definition bulk_body :: "string list \<Rightarrow> string list \<Rightarrow> body" where
  "bulk_body g r = no_fields\<lparr>grantPermissions := Some g, revokePermissions := Some r\<rparr>"


text \<open>The scenario's store on a backend that answers \<open>n\<close> statements and then rejects.\<close>

definition failing_pool :: "nat \<Rightarrow> pool" where
  "failing_pool n = demo_pool\<lparr>answers := Some n\<rparr>"

text \<open>The table \<^verbatim>\<open>role_permissions\<close> after a full replace of role \<open>r\<close> by the resolved names.\<close>

definition replaced_rows :: "string \<Rightarrow> string list \<Rightarrow> pool \<Rightarrow> role_permission list" where
  "replaced_rows r names w =
     filter (\<lambda>rp. rp_role rp \<noteq> r) (role_permissions w) @
     map (\<lambda>p. \<lparr>rp_role = r, rp_permissionId = p_id p\<rparr>) (select_permissions_in names w)"

text \<open>The names of a list that have a catalog entry.\<close>

definition known :: "pool \<Rightarrow> string list \<Rightarrow> string list" where
  "known w ns = filter (\<lambda>n. n \<in> p_name ` set (permissions w)) ns"

section \<open>Basic facts about the queries\<close>

lemma query_rows_ok:
  "answers w = None \<Longrightarrow> query_rows q rows k w = k (rows w) (sent q w)"
  by (simp add: query_rows_def rejects_def)

lemma query_write_ok:
  "answers w = None \<Longrightarrow> query_write q write k w =
     (case write (sent q w) of None \<Rightarrow> (Status500 ''Server error'', sent q w) | Some w' \<Rightarrow> k w')"
  by (simp add: query_write_def rejects_def respond_def split: option.splits)

lemma answers_sent: "answers w = None \<Longrightarrow> answers (sent q w) = None"
  by (simp add: sent_def)

lemma tables_sent [simp]:
  "permissions (sent q w) = permissions w"
  "users (sent q w) = users w"
  "user_permissions (sent q w) = user_permissions w"
  "role_permissions (sent q w) = role_permissions w"
  "pair_key (sent q w) = pair_key w"
  by (simp_all add: sent_def)

lemma select_sent [simp]:
  "select_role u (sent q w) = select_role u w"
  "select_user_perms u (sent q w) = select_user_perms u w"
  "select_role_perms r (sent q w) = select_role_perms r w"
  "select_permissions_in ns (sent q w) = select_permissions_in ns w"
  "select_permission_id n (sent q w) = select_permission_id n w"
  by (simp_all add: select_role_def select_user_perms_def select_role_perms_def
      select_permissions_in_def select_permission_id_def cong: if_cong)

lemma set_fold_Set_add: "set (fold Set_add xs s) = set s \<union> set xs"
  by (induction xs arbitrary: s) (auto simp: Set_add_def)

lemma distinct_fold_Set_add: "distinct s \<Longrightarrow> distinct (fold Set_add xs s)"
  by (induction xs arbitrary: s) (auto simp: Set_add_def)

lemma set_fold_Set_delete: "set (fold Set_delete xs s) = set s - set xs"
  by (induction xs arbitrary: s) (auto simp: Set_delete_def)

lemma distinct_fold_Set_delete: "distinct s \<Longrightarrow> distinct (fold Set_delete xs s)"
  by (induction xs arbitrary: s) (auto simp: Set_delete_def)

lemma set_new_Set: "set (new_Set xs) = set xs"
  by (simp add: new_Set_def set_fold_Set_add)

lemma distinct_new_Set: "distinct (new_Set xs)"
  by (simp add: new_Set_def distinct_fold_Set_add)

lemma set_select_role_perms: "set (select_role_perms r w) = spec_RolePermissions w r"
  by (auto simp: select_role_perms_def spec_RolePermissions_def)

lemma set_select_user_perms:
  "set (select_user_perms u w) =
     {(p_name p, up_type up) | up p. up \<in> set (user_permissions w) \<and> p \<in> set (permissions w)
        \<and> up_userId up = u \<and> up_permissionId up = p_id p}"
  by (auto simp: select_user_perms_def)

lemma overrides_of_select:
  "fst ` {x \<in> set (select_user_perms u w). snd x = t} = spec_Overrides w u t"
  unfolding set_select_user_perms spec_Overrides_def
  by (auto simp: image_iff) (blast, force)

lemma find_filter: "find P xs = Some x \<Longrightarrow> \<exists>ys. filter P xs = x # ys"
  by (induction xs) (auto split: if_splits)

lemma getUserPermissions_ok:
  assumes "answers w = None"
  shows "getUserPermissions u w =
    (let userRole = (case select_role u w of [] \<Rightarrow> ''User'' | r # _ \<Rightarrow> or_str r ''User'');
         userPerms = select_user_perms u w;
         rolePerms = select_role_perms userRole w;
         granted = map fst (filter (\<lambda>up. snd up = ''grant'') userPerms);
         revoked = map fst (filter (\<lambda>up. snd up = ''revoke'') userPerms)
     in (UserData
          \<lparr>userId = u, role = userRole,
           effectivePermissions = fold Set_delete revoked (fold Set_add granted (new_Set rolePerms)),
           rolePermissions = rolePerms, grantedPermissions = granted,
           revokedPermissions = revoked\<rparr>,
         sent SELECT_name_FROM_role_permissions
           (sent SELECT_name_type_FROM_user_permissions (sent SELECT_role_FROM_users w))))"
  using assms
  by (simp add: getUserPermissions_def query_rows_ok answers_sent Let_def respond_def)

lemma bulk_upsert_Nil [simp]: "bulk_upsert key u t [] rows = rows"
  by (simp add: bulk_upsert_def)

lemma select_permissions_in_Nil [simp]: "select_permissions_in [] w = []"
  by (simp add: select_permissions_in_def)

lemma fields_sent [simp]:
  "issued (sent q w) = issued w @ [q]"
  "answers (sent q w) = map_option (\<lambda>n. n - 1) (answers w)"
  by (simp_all add: sent_def)

lemma select_permissions_upd [simp]:
  "select_permissions_in ns (w\<lparr>user_permissions := x\<rparr>) = select_permissions_in ns w"
  "select_permissions_in ns (w\<lparr>role_permissions := y\<rparr>) = select_permissions_in ns w"
  "select_permission_id n (w\<lparr>user_permissions := x\<rparr>) = select_permission_id n w"
  "select_role u (w\<lparr>user_permissions := x\<rparr>) = select_role u w"
  "select_role_perms r (w\<lparr>user_permissions := x\<rparr>) = select_role_perms r w"
  by (simp_all add: select_permissions_in_def select_permission_id_def select_role_def
      select_role_perms_def cong: if_cong)

lemma updateUserPermission_bulk_ok:
  assumes "answers w = None" "grantPermissions b \<noteq> None \<or> revokePermissions b \<noteq> None"
  shows "fst (updateUserPermission u b w) = Success ''User permissions updated''"
    and "user_permissions (snd (updateUserPermission u b w)) =
          bulk_upsert (pair_key w) u ''revoke''
            (select_permissions_in (or_array (revokePermissions b) []) w)
            (bulk_upsert (pair_key w) u ''grant''
               (select_permissions_in (or_array (grantPermissions b) []) w)
               (user_permissions w))"
    and "answers (snd (updateUserPermission u b w)) = None"
  using assms
  by (auto simp add: updateUserPermission_def Let_def query_rows_ok query_write_ok answers_sent
      insert_user_permissions_def respond_def bulk_upsert_def)

lemma updateUserPermission_bulk_cases:
  assumes "grantPermissions b \<noteq> None \<or> revokePermissions b \<noteq> None"
  shows "(fst (updateUserPermission u b w) = Success ''User permissions updated'' \<and>
          user_permissions (snd (updateUserPermission u b w)) =
          bulk_upsert (pair_key w) u ''revoke''
            (select_permissions_in (or_array (revokePermissions b) []) w)
            (bulk_upsert (pair_key w) u ''grant''
               (select_permissions_in (or_array (grantPermissions b) []) w)
               (user_permissions w)))
       \<or> (fst (updateUserPermission u b w) = Status500 ''Server error'' \<and>
          (user_permissions (snd (updateUserPermission u b w)) = user_permissions w \<or>
           user_permissions (snd (updateUserPermission u b w)) =
             bulk_upsert (pair_key w) u ''grant''
               (select_permissions_in (or_array (grantPermissions b) []) w)
               (user_permissions w)))"
  using assms
  by (auto simp add: updateUserPermission_def Let_def query_rows_def query_write_def
      insert_user_permissions_def respond_def bulk_upsert_def)


subsection \<open>upsert\<close>

lemma upsert_alt:
  "upsert key t (u, p, t0) rows =
     (if key \<and> (u, p) \<in> pair_of ` set rows
      then map (\<lambda>r. if pair_of r = (u, p) then r\<lparr>up_type := t\<rparr> else r) rows
      else rows @ [\<lparr>up_userId = u, up_permissionId = p, up_type = t0\<rparr>])"
  by (auto simp: upsert_def pair_of_def image_iff)

lemma pair_of_retype [simp]: "pair_of (r\<lparr>up_type := t\<rparr>) = pair_of r"
  by (simp add: pair_of_def)

lemma pairs_upsert:
  "map pair_of (upsert key t (u, p, t0) rows) =
     (if key \<and> (u, p) \<in> pair_of ` set rows then map pair_of rows else map pair_of rows @ [(u, p)])"
  by (simp add: upsert_alt comp_def pair_of_def cong: map_cong)


lemma frame_retype:
  "k \<noteq> k' \<Longrightarrow>
     filter (\<lambda>r. pair_of r = k) (map (\<lambda>r. if pair_of r = k' then r\<lparr>up_type := t\<rparr> else r) rows) =
     filter (\<lambda>r. pair_of r = k) rows"
  by (induction rows) auto

lemma frame_upsert:
  "k \<noteq> (u, p) \<Longrightarrow>
     filter (\<lambda>r. pair_of r = k) (upsert key t (u, p, t0) rows) = filter (\<lambda>r. pair_of r = k) rows"
  by (auto simp: upsert_alt frame_retype) (simp add: pair_of_def)+

lemma row_retype:
  "r \<in> set rows \<Longrightarrow> pair_of r = k \<Longrightarrow>
     \<exists>r' \<in> set (map (\<lambda>r. if pair_of r = k then r\<lparr>up_type := t\<rparr> else r) rows).
        pair_of r' = k \<and> up_type r' = t"
  by (induction rows) auto

lemma row_upsert: "\<exists>r \<in> set (upsert key t (u, p, t) rows). pair_of r = (u, p) \<and> up_type r = t"
proof (cases "key \<and> (u, p) \<in> pair_of ` set rows")
  case True
  then obtain r where "r \<in> set rows" "pair_of r = (u, p)" by auto
  from row_retype [OF this] True show ?thesis by (simp add: upsert_alt)
next
  case False
  then show ?thesis by (auto simp: upsert_alt pair_of_def)
qed

lemma row_kept_retype:
  "r \<in> set rows \<Longrightarrow> pair_of r = k \<Longrightarrow> up_type r = t \<Longrightarrow>
     \<exists>r' \<in> set (map (\<lambda>r. if pair_of r = k' then r\<lparr>up_type := t\<rparr> else r) rows).
        pair_of r' = k \<and> up_type r' = t"
  by (induction rows) auto

lemma row_kept_upsert:
  assumes "\<exists>r \<in> set rows. pair_of r = k \<and> up_type r = t"
  shows "\<exists>r \<in> set (upsert key t v rows). pair_of r = k \<and> up_type r = t"
proof -
  obtain u p t0 where v: "v = (u, p, t0)" by (cases v) auto
  from assms obtain r where r: "r \<in> set rows" "pair_of r = k" "up_type r = t" by auto
  show ?thesis
  proof (cases "key \<and> (u, p) \<in> pair_of ` set rows")
    case True
    from row_kept_retype [OF r] True show ?thesis by (simp add: v upsert_alt)
  next
    case False
    with r show ?thesis by (auto simp: v upsert_alt)
  qed
qed

lemma pairs_kept_upsert: "pair_of ` set rows \<subseteq> pair_of ` set (upsert key t v rows)"
proof (cases v)
  case (fields u p t0)
  have "set (map pair_of rows) \<subseteq> set (map pair_of (upsert key t (u, p, t0) rows))"
    unfolding pairs_upsert by auto
  with fields show ?thesis by simp
qed

subsection \<open>bulk upsert\<close>


lemma frame_bulk_upsert:
  "u' \<noteq> u \<or> pid \<notin> p_id ` set ps \<Longrightarrow>
     filter (\<lambda>r. pair_of r = (u', pid)) (bulk_upsert key u t ps rows) =
     filter (\<lambda>r. pair_of r = (u', pid)) rows"
  unfolding bulk_upsert_def
proof (induction ps arbitrary: rows)
  case Nil
  then show ?case by simp
next
  case (Cons a ps)
  then have "(u', pid) \<noteq> (u, p_id a)" by auto
  with Cons show ?case by (simp add: frame_upsert)
qed

lemma row_bulk_upsert:
  "p \<in> set ps \<Longrightarrow>
     \<exists>r \<in> set (bulk_upsert key u t ps rows). pair_of r = (u, p_id p) \<and> up_type r = t"
  unfolding bulk_upsert_def
proof (induction ps arbitrary: rows)
  case Nil
  then show ?case by simp
next
  case (Cons a ps)
  have kept: "\<exists>r \<in> set rows'. pair_of r = k \<and> up_type r = t \<Longrightarrow>
     \<exists>r \<in> set (fold (upsert key t) vs rows'). pair_of r = k \<and> up_type r = t" for vs rows' k
    by (induction vs arbitrary: rows') (simp_all add: row_kept_upsert)
  show ?case
  proof (cases "p = a")
    case True
    then show ?thesis using kept [OF row_upsert] by simp
  next
    case False
    with Cons show ?thesis by simp
  qed
qed

lemma pairs_kept_bulk_upsert: "pair_of ` set rows \<subseteq> pair_of ` set (bulk_upsert key u t ps rows)"
  unfolding bulk_upsert_def
proof (induction ps arbitrary: rows)
  case Nil
  then show ?case by simp
next
  case (Cons a ps)
  have "pair_of ` set rows \<subseteq> pair_of ` set (upsert key t (u, p_id a, t) rows)"
    by (rule pairs_kept_upsert)
  also have "\<dots> \<subseteq> pair_of ` set (fold (upsert key t) (map (\<lambda>p. (u, p_id p, t)) ps)
      (upsert key t (u, p_id a, t) rows))"
    by (rule Cons.IH)
  finally show ?case by simp
qed

subsection \<open>updateUserPermission, whatever the backend does\<close>

lemma updateUserPermission_tables:
  "permissions (snd (updateUserPermission u b w)) = permissions w"
  "users (snd (updateUserPermission u b w)) = users w"
  "role_permissions (snd (updateUserPermission u b w)) = role_permissions w"
  "pair_key (snd (updateUserPermission u b w)) = pair_key w"
  by (auto simp add: updateUserPermission_def Let_def query_rows_def query_write_def
      insert_user_permissions_def insert_user_permission_def delete_user_permission_def
      respond_def split: list.splits option.splits)

lemma updateUserPermission_answers:
  "answers w = None \<Longrightarrow> answers (snd (updateUserPermission u b w)) = None"
  by (auto simp add: updateUserPermission_def Let_def query_rows_def query_write_def rejects_def
      insert_user_permissions_def insert_user_permission_def delete_user_permission_def
      respond_def split: list.splits option.splits)





subsection \<open>The override writes and the uniqueness invariant\<close>


lemma resetUserPermissions_tables:
  "permissions (snd (resetUserPermissions u w)) = permissions w"
  "users (snd (resetUserPermissions u w)) = users w"
  "role_permissions (snd (resetUserPermissions u w)) = role_permissions w"
  "pair_key (snd (resetUserPermissions u w)) = pair_key w"
  by (simp_all add: resetUserPermissions_def query_write_def delete_user_permissions_def respond_def)






lemma updateUserPermission_by_id_ok:
  assumes "answers w = None" "grantPermissions b = None" "revokePermissions b = None"
    and "\<not> (truthy_str (permissionName b) \<and> \<not> truthy_num (permissionId b))"
    and "permissionId b = Some p" "type' b = Some t" "t \<noteq> []"
  shows "fst (updateUserPermission u b w) = Success ''User permission updated''"
    and "user_permissions (snd (updateUserPermission u b w)) =
           upsert (pair_key w) t (u, p, t) (user_permissions w)"
proof -
  have tt: "truthy_str (type' b)"
    using assms(6,7) by (simp add: truthy_str_def)
  show "fst (updateUserPermission u b w) = Success ''User permission updated''"
    using assms(1-6) tt
    by (auto simp add: updateUserPermission_def Let_def query_write_ok
        insert_user_permission_def respond_def)
  show "user_permissions (snd (updateUserPermission u b w)) =
           upsert (pair_key w) t (u, p, t) (user_permissions w)"
    using assms(1-6) tt
    by (auto simp add: updateUserPermission_def Let_def query_write_ok
        insert_user_permission_def respond_def)
qed

subsection \<open>Names the catalog does not resolve\<close>

lemma select_permissions_in_known:
  "select_permissions_in (known w ns) w = select_permissions_in ns w"
  by (auto simp: select_permissions_in_def known_def intro: filter_cong)

lemma or_array_known:
  "or_array (map_option (known w) x) [] = known w (or_array x [])"
  by (cases x) (simp_all add: or_array_def known_def)

lemma updateUserPermission_not_found:
  assumes "answers w = None" "grantPermissions b = None" "revokePermissions b = None"
    and "truthy_str (permissionName b)" "\<not> truthy_num (permissionId b)"
    and "select_permission_id (the (permissionName b)) w = []"
  shows "updateUserPermission u b w =
           (Status404 ''Permission not found'', sent SELECT_id_FROM_permissions w)"
  using assms
  by (simp add: updateUserPermission_def Let_def query_rows_ok respond_def)

subsection \<open>What a revoke leaves the resolver\<close>

lemma getUserPermissions_effective:
  assumes "answers w = None"
  shows "\<exists>v. fst (getUserPermissions u w) = UserData v
     \<and> set (effectivePermissions v) = spec_EffectivePermissionSet w u (role v)"
proof -
  have g: "set (map fst (filter (\<lambda>up. snd up = t) (select_user_perms u w))) = spec_Overrides w u t" for t
    using overrides_of_select [of u w t] by simp
  show ?thesis
    by (simp add: getUserPermissions_ok [OF assms] Let_def spec_EffectivePermissionSet_def
        set_fold_Set_delete set_fold_Set_add set_new_Set set_select_role_perms g del: set_map)
qed

lemma revoked_not_effective:
  assumes "answers w = None" "n \<in> spec_Overrides w u ''revoke''"
  shows "\<exists>v. fst (getUserPermissions u w) = UserData v \<and> n \<notin> set (effectivePermissions v)"
  using getUserPermissions_effective [OF assms(1), of u] assms(2)
  by (auto simp: spec_EffectivePermissionSet_def)

lemma unknown_not_effective:
  assumes "answers w = None" "n \<notin> p_name ` set (permissions w)"
  shows "\<exists>v. fst (getUserPermissions u w) = UserData v \<and> n \<notin> set (effectivePermissions v)"
  using getUserPermissions_effective [OF assms(1), of u] assms(2)
  by (auto simp: spec_EffectivePermissionSet_def spec_RolePermissions_def spec_Overrides_def)

lemma row_revoked:
  assumes "r \<in> set (user_permissions w)" "pair_of r = (u, p_id q)" "up_type r = ''revoke''"
    and "q \<in> set (permissions w)"
  shows "p_name q \<in> spec_Overrides w u ''revoke''"
  using assms unfolding spec_Overrides_def pair_of_def by auto

lemma updateUserPermission_by_name_ok:
  assumes "answers w = None" "grantPermissions b = None" "revokePermissions b = None"
    and "truthy_str (permissionName b)" "\<not> truthy_num (permissionId b)"
    and "select_permission_id (the (permissionName b)) w = p # ps"
    and "type' b = Some t" "t \<noteq> []"
  shows "fst (updateUserPermission u b w) = Success ''User permission updated''"
    and "user_permissions (snd (updateUserPermission u b w)) =
           upsert (pair_key w) t (u, p, t) (user_permissions w)"
proof -
  have tt: "truthy_str (type' b)"
    using assms(7,8) by (simp add: truthy_str_def)
  show "fst (updateUserPermission u b w) = Success ''User permission updated''"
    using assms(1-7) tt
    by (auto simp add: updateUserPermission_def Let_def query_write_ok query_rows_ok answers_sent
        insert_user_permission_def respond_def)
  show "user_permissions (snd (updateUserPermission u b w)) =
           upsert (pair_key w) t (u, p, t) (user_permissions w)"
    using assms(1-7) tt
    by (auto simp add: updateUserPermission_def Let_def query_write_ok query_rows_ok answers_sent
        insert_user_permission_def respond_def)
qed

text \<open>After a bulk update, a name of the revoke list is not effective.\<close>

lemma bulk_revoked_not_effective:
  assumes "answers w = None" "n \<in> set (or_array (revokePermissions b) [])"
  shows "\<exists>v. fst (getUserPermissions u (snd (updateUserPermission u b w))) = UserData v
     \<and> n \<notin> set (effectivePermissions v)"
proof -
  let ?w' = "snd (updateUserPermission u b w)"
  have bulk: "grantPermissions b \<noteq> None \<or> revokePermissions b \<noteq> None"
    using assms(2) by (auto simp: or_array_def)
  have a': "answers ?w' = None"
    using assms(1) by (rule updateUserPermission_answers)
  show ?thesis
  proof (cases "n \<in> p_name ` set (permissions w)")
    case True
    then obtain q where q: "q \<in> set (permissions w)" "p_name q = n" by auto
    with assms(2) have "q \<in> set (select_permissions_in (or_array (revokePermissions b) []) w)"
      by (simp add: select_permissions_in_def)
    from row_bulk_upsert [OF this]
    obtain r where "r \<in> set (user_permissions ?w')" "pair_of r = (u, p_id q)" "up_type r = ''revoke''"
      unfolding updateUserPermission_bulk_ok(2) [OF assms(1) bulk] by blast
    then have "p_name q \<in> spec_Overrides ?w' u ''revoke''"
      using q(1) by (intro row_revoked) (simp_all add: updateUserPermission_tables)
    with q(2) show ?thesis
      using revoked_not_effective [OF a'] by blast
  next
    case False
    then have "n \<notin> p_name ` set (permissions ?w')"
      by (simp add: updateUserPermission_tables)
    then show ?thesis by (rule unknown_not_effective [OF a'])
  qed
qed

text \<open>After a single revoke by name, that name is not effective.\<close>

lemma single_revoked_by_name_not_effective:
  assumes "answers w = None" "grantPermissions b = None" "revokePermissions b = None"
    and "truthy_str (permissionName b)" "\<not> truthy_num (permissionId b)"
  shows "\<exists>v. fst (getUserPermissions u (snd (revokeUserPermission u b w))) = UserData v
     \<and> the (permissionName b) \<notin> set (effectivePermissions v)"
proof -
  let ?b = "b\<lparr>type' := Some ''revoke''\<rparr>"
  let ?n = "the (permissionName b)"
  let ?w' = "snd (updateUserPermission u ?b w)"
  have a': "answers ?w' = None"
    using assms(1) by (rule updateUserPermission_answers)
  have "\<exists>v. fst (getUserPermissions u ?w') = UserData v \<and> ?n \<notin> set (effectivePermissions v)"
  proof (cases "select_permission_id ?n w")
    case Nil
    then have "?n \<notin> p_name ` set (permissions w)"
      by (auto simp: select_permission_id_def filter_empty_conv)
    then have "?n \<notin> p_name ` set (permissions ?w')"
      by (simp add: updateUserPermission_tables)
    then show ?thesis by (rule unknown_not_effective [OF a'])
  next
    case (Cons p ps)
    then have "p \<in> set (select_permission_id ?n w)" by simp
    then obtain q where q: "q \<in> set (permissions w)" "p_name q = ?n" "p_id q = p"
      by (auto simp: select_permission_id_def)
    have "user_permissions ?w' = upsert (pair_key w) ''revoke'' (u, p, ''revoke'') (user_permissions w)"
      using assms Cons by (intro updateUserPermission_by_name_ok(2) [where ps = ps]) simp_all
    with row_upsert [of "pair_key w" "''revoke''" u p "user_permissions w"]
    obtain r where "r \<in> set (user_permissions ?w')" "pair_of r = (u, p_id q)" "up_type r = ''revoke''"
      using q(3) by auto
    then have "p_name q \<in> spec_Overrides ?w' u ''revoke''"
      using q(1) by (intro row_revoked) (simp_all add: updateUserPermission_tables)
    with q(2) show ?thesis
      using revoked_not_effective [OF a'] by metis
  qed
  then show ?thesis by (simp add: revokeUserPermission_def)
qed

text \<open>After a single revoke by id, no name of that id is effective.\<close>

lemma single_revoked_by_id_not_effective:
  assumes "answers w = None" "grantPermissions b = None" "revokePermissions b = None"
    and "\<not> (truthy_str (permissionName b) \<and> \<not> truthy_num (permissionId b))"
    and "q \<in> set (permissions w)" "permissionId b = Some (p_id q)"
  shows "\<exists>v. fst (getUserPermissions u (snd (revokeUserPermission u b w))) = UserData v
     \<and> p_name q \<notin> set (effectivePermissions v)"
proof -
  let ?b = "b\<lparr>type' := Some ''revoke''\<rparr>"
  let ?w' = "snd (updateUserPermission u ?b w)"
  have a': "answers ?w' = None"
    using assms(1) by (rule updateUserPermission_answers)
  have "user_permissions ?w' =
      upsert (pair_key w) ''revoke'' (u, p_id q, ''revoke'') (user_permissions w)"
    using assms by (intro updateUserPermission_by_id_ok(2)) simp_all
  with row_upsert [of "pair_key w" "''revoke''" u "p_id q" "user_permissions w"]
  obtain r where "r \<in> set (user_permissions ?w')" "pair_of r = (u, p_id q)" "up_type r = ''revoke''"
    by auto
  then have "p_name q \<in> spec_Overrides ?w' u ''revoke''"
    using assms(5) by (intro row_revoked) (simp_all add: updateUserPermission_tables)
  then show ?thesis
    using revoked_not_effective [OF a'] by (simp add: revokeUserPermission_def)
qed

subsection \<open>reset\<close>

lemma resetUserPermissions_ok:
  assumes "answers w = None"
  shows "resetUserPermissions u w =
    (Success ''User permissions reset'',
     (sent DELETE_user_permissions_user w)
       \<lparr>user_permissions := filter (\<lambda>r. up_userId r \<noteq> u) (user_permissions w)\<rparr>)"
  using assms
  by (simp add: resetUserPermissions_def query_write_ok delete_user_permissions_def respond_def)

lemma select_user_perms_none:
  "u \<notin> up_userId ` set (user_permissions w) \<Longrightarrow> select_user_perms u w = []"
  by (induction "user_permissions w" arbitrary: w)
    (auto simp: select_user_perms_def filter_empty_conv)

subsection \<open>The role policy\<close>

lemma updateRolePermissions_ok:
  assumes "answers w = None"
  shows "fst (updateRolePermissions r (Some names) w) = Success ''Role permissions updated''"
    and "role_permissions (snd (updateRolePermissions r (Some names) w)) = replaced_rows r names w"
    and "answers (snd (updateRolePermissions r (Some names) w)) = None"
    and "permissions (snd (updateRolePermissions r (Some names) w)) = permissions w"
  using assms
  by (auto simp add: updateRolePermissions_def Let_def query_rows_ok query_write_ok answers_sent
      delete_role_permissions_def insert_role_permissions_def respond_def replaced_rows_def
      comp_def)

lemma updateRolePermissions_cases:
  "(fst (updateRolePermissions r (Some names) w) = Success ''Role permissions updated'' \<and>
      role_permissions (snd (updateRolePermissions r (Some names) w)) = replaced_rows r names w)
   \<or> (fst (updateRolePermissions r (Some names) w) = Status500 ''Server error'' \<and>
       (role_permissions (snd (updateRolePermissions r (Some names) w)) = role_permissions w \<or>
        role_permissions (snd (updateRolePermissions r (Some names) w)) =
          filter (\<lambda>rp. rp_role rp \<noteq> r) (role_permissions w)))"
  by (auto simp add: updateRolePermissions_def Let_def query_rows_def query_write_def
      delete_role_permissions_def insert_role_permissions_def respond_def replaced_rows_def
      comp_def)

lemma replaced_rows_again:
  assumes "role_permissions w' = replaced_rows r names w" "permissions w' = permissions w"
  shows "replaced_rows r names w' = replaced_rows r names w"
  using assms by (simp add: replaced_rows_def select_permissions_in_def)

lemma spec_RolePermissions_replaced:
  assumes "distinct (map p_id (permissions w))"
    and "role_permissions w' = replaced_rows r names w" "permissions w' = permissions w"
  shows "spec_RolePermissions w' r = set names \<inter> p_name ` set (permissions w)"
proof -
  have inj: "inj_on p_id (set (permissions w))"
    using assms(1) by (simp add: distinct_map)
  show ?thesis
  proof (intro set_eqI iffI)
    fix n
    assume "n \<in> spec_RolePermissions w' r"
    then obtain rp p where rp: "rp \<in> set (replaced_rows r names w)" "rp_role rp = r"
        and p: "p \<in> set (permissions w)" "rp_permissionId rp = p_id p" "p_name p = n"
      by (auto simp: spec_RolePermissions_def assms(2,3))
    from rp obtain q where q: "q \<in> set (permissions w)" "p_name q \<in> set names"
        "rp = \<lparr>rp_role = r, rp_permissionId = p_id q\<rparr>"
      by (auto simp: replaced_rows_def select_permissions_in_def)
    from q(3) have "rp_permissionId rp = p_id q" by simp
    with p(2) have "p_id q = p_id p" by simp
    with inj q(1) p(1) have "q = p" by (auto dest: inj_onD)
    with q(2) p show "n \<in> set names \<inter> p_name ` set (permissions w)" by auto
  next
    fix n
    assume "n \<in> set names \<inter> p_name ` set (permissions w)"
    then obtain p where p: "p \<in> set (permissions w)" "p_name p = n" "n \<in> set names" by auto
    then have "\<lparr>rp_role = r, rp_permissionId = p_id p\<rparr> \<in> set (role_permissions w')"
      by (auto simp: assms(2) replaced_rows_def select_permissions_in_def)
    with p show "n \<in> spec_RolePermissions w' r"
      unfolding spec_RolePermissions_def assms(3) by force
  qed
qed

subsection \<open>The one row of a pair\<close>





section \<open>C1: the resolver\<close>

text \<open>
  C1. When the backend answers, \<^verbatim>\<open>getUserPermissions\<close> answers with the user data
  whose effectivePermissions are, as a set, (the names of the role's permissions united
  with the names granted to the user) minus the names revoked for the user, and whose
  rolePermissions, grantedPermissions and revokedPermissions are those three sets. A
  user id with no row in \<^verbatim>\<open>users\<close> is resolved with the role "User" and the call
  still answers with user data; a stored user is resolved with the role of its first row,
  "User" standing in for a NULL or empty role.
\<close>

theorem C1_resolve:
  assumes "answers w = None"
  shows "\<exists>v. fst (getUserPermissions u w) = UserData v
     \<and> userId v = u
     \<and> set (effectivePermissions v) = spec_EffectivePermissionSet w u (role v)
     \<and> set (rolePermissions v) = spec_RolePermissions w (role v)
     \<and> set (grantedPermissions v) = spec_Overrides w u ''grant''
     \<and> set (revokedPermissions v) = spec_Overrides w u ''revoke''
     \<and> (u \<notin> u_id ` set (users w) \<longrightarrow> role v = ''User'')
     \<and> (\<forall>x. find (\<lambda>x. u_id x = u) (users w) = Some x \<longrightarrow> role v = or_str (u_role x) ''User'')"
proof -
  let ?r = "case select_role u w of [] \<Rightarrow> ''User'' | r # _ \<Rightarrow> or_str r ''User''"
  have g: "set (map fst (filter (\<lambda>up. snd up = t) (select_user_perms u w))) = spec_Overrides w u t" for t
    using overrides_of_select [of u w t] by simp
  have r1: "u \<notin> u_id ` set (users w) \<Longrightarrow> ?r = ''User''"
  proof -
    assume "u \<notin> u_id ` set (users w)"
    then have "filter (\<lambda>x. u_id x = u) (users w) = []"
      by (auto simp: filter_empty_conv)
    then show ?thesis by (simp add: select_role_def)
  qed
  have r2: "find (\<lambda>x. u_id x = u) (users w) = Some x \<Longrightarrow> ?r = or_str (u_role x) ''User''" for x
  proof -
    assume "find (\<lambda>x. u_id x = u) (users w) = Some x"
    then obtain ys where "filter (\<lambda>x. u_id x = u) (users w) = x # ys"
      using find_filter by fastforce
    then show ?thesis by (simp add: select_role_def)
  qed
  show ?thesis
    using r1 r2
    by (simp add: getUserPermissions_ok [OF assms] Let_def spec_EffectivePermissionSet_def
        set_fold_Set_delete set_fold_Set_add set_new_Set set_select_role_perms g del: set_map)
qed


theorem C1_resolve_witness:
  "answers demo_pool = None
   \<and> fst (getUserPermissions 7 demo_pool) = UserData
        \<lparr>userId = 7, role = ''Instructor'',
         effectivePermissions = [''create_quiz'', ''view_students''],
         rolePermissions = [''create_quiz'', ''view_students''],
         grantedPermissions = [], revokedPermissions = []\<rparr>
   \<and> spec_EffectivePermissionSet demo_pool 7 ''Instructor'' = {''create_quiz'', ''view_students''}
   \<and> (\<exists>v. fst (getUserPermissions 9 demo_pool) = UserData v \<and> role v = ''User'')"
proof -
  have a: "answers demo_pool = None"
    by (simp add: demo_pool_def)
  have e: "fst (getUserPermissions 7 demo_pool) = UserData
        \<lparr>userId = 7, role = ''Instructor'',
         effectivePermissions = [''create_quiz'', ''view_students''],
         rolePermissions = [''create_quiz'', ''view_students''],
         grantedPermissions = [], revokedPermissions = []\<rparr>"
    by code_simp
  have n: "9 \<notin> u_id ` set (users demo_pool)"
    by (simp add: demo_pool_def)
  from C1_resolve [OF a, of 7] e
  have "spec_EffectivePermissionSet demo_pool 7 ''Instructor'' = {''create_quiz'', ''view_students''}"
    by auto
  moreover from C1_resolve [OF a, of 9] n
  have "\<exists>v. fst (getUserPermissions 9 demo_pool) = UserData v \<and> role v = ''User''"
    by blast
  ultimately show ?thesis using a e by blast
qed

section \<open>C2: one row per pair\<close>




section \<open>C3: revoke wins\<close>

text \<open>
  C3. When the backend answers: after a bulk update that lists a name in both
  grantPermissions and revokePermissions (the grant INSERT runs first, the revoke INSERT
  second), and after a single grant followed by a single revoke of the same permission
  (given by name, or by id), the resolver's effectivePermissions do not contain that
  permission's name, whether or not the role confers it.
\<close>

theorem C3_revoke_wins:
  assumes "answers w = None"
  shows "(n \<in> set (or_array (grantPermissions b) []) \<and> n \<in> set (or_array (revokePermissions b) []) \<longrightarrow>
           (\<exists>v. fst (getUserPermissions u (snd (updateUserPermission u b w))) = UserData v
              \<and> n \<notin> set (effectivePermissions v)))
    \<and> (grantPermissions b = None \<and> revokePermissions b = None
         \<and> truthy_str (permissionName b) \<and> \<not> truthy_num (permissionId b) \<longrightarrow>
           (\<exists>v. fst (getUserPermissions u
                   (snd (revokeUserPermission u b (snd (grantUserPermission u b w))))) = UserData v
              \<and> the (permissionName b) \<notin> set (effectivePermissions v)))
    \<and> (grantPermissions b = None \<and> revokePermissions b = None
         \<and> \<not> (truthy_str (permissionName b) \<and> \<not> truthy_num (permissionId b))
         \<and> q \<in> set (permissions w) \<and> permissionId b = Some (p_id q) \<longrightarrow>
           (\<exists>v. fst (getUserPermissions u
                   (snd (revokeUserPermission u b (snd (grantUserPermission u b w))))) = UserData v
              \<and> p_name q \<notin> set (effectivePermissions v)))"
proof (intro conjI impI)
  assume "n \<in> set (or_array (grantPermissions b) []) \<and> n \<in> set (or_array (revokePermissions b) [])"
  then show "\<exists>v. fst (getUserPermissions u (snd (updateUserPermission u b w))) = UserData v
              \<and> n \<notin> set (effectivePermissions v)"
    using bulk_revoked_not_effective [OF assms] by blast
next
  let ?w1 = "snd (grantUserPermission u b w)"
  have a1: "answers ?w1 = None"
    using assms by (simp add: grantUserPermission_def updateUserPermission_answers)
  assume "grantPermissions b = None \<and> revokePermissions b = None
         \<and> truthy_str (permissionName b) \<and> \<not> truthy_num (permissionId b)"
  then show "\<exists>v. fst (getUserPermissions u (snd (revokeUserPermission u b ?w1))) = UserData v
              \<and> the (permissionName b) \<notin> set (effectivePermissions v)"
    using single_revoked_by_name_not_effective [OF a1] by blast
next
  let ?w1 = "snd (grantUserPermission u b w)"
  have a1: "answers ?w1 = None"
    using assms by (simp add: grantUserPermission_def updateUserPermission_answers)
  have p1: "permissions ?w1 = permissions w"
    by (simp add: grantUserPermission_def updateUserPermission_tables)
  assume "grantPermissions b = None \<and> revokePermissions b = None
         \<and> \<not> (truthy_str (permissionName b) \<and> \<not> truthy_num (permissionId b))
         \<and> q \<in> set (permissions w) \<and> permissionId b = Some (p_id q)"
  then show "\<exists>v. fst (getUserPermissions u (snd (revokeUserPermission u b ?w1))) = UserData v
              \<and> p_name q \<notin> set (effectivePermissions v)"
    using single_revoked_by_id_not_effective [OF a1, of b q u] p1 by auto
qed

theorem C3_revoke_wins_witness:
  "answers demo_pool = None
   \<and> ''view_students'' \<in> spec_RolePermissions demo_pool ''Instructor''
   \<and> (\<exists>v. fst (getUserPermissions 7 (snd (updateUserPermission 7
              (bulk_body [''view_students''] [''view_students'']) demo_pool))) = UserData v
          \<and> ''view_students'' \<notin> set (effectivePermissions v))
   \<and> (\<exists>v. fst (getUserPermissions 7 (snd (revokeUserPermission 7
              (no_fields\<lparr>permissionName := Some ''view_students''\<rparr>)
              (snd (grantUserPermission 7 (no_fields\<lparr>permissionName := Some ''view_students''\<rparr>)
                 demo_pool))))) = UserData v
          \<and> ''view_students'' \<notin> set (effectivePermissions v))
   \<and> (\<exists>v. fst (getUserPermissions 7 (snd (revokeUserPermission 7
              (no_fields\<lparr>permissionId := Some 2\<rparr>)
              (snd (grantUserPermission 7 (no_fields\<lparr>permissionId := Some 2\<rparr>)
                 demo_pool))))) = UserData v
          \<and> ''view_students'' \<notin> set (effectivePermissions v))"
proof -
  let ?bb = "bulk_body [''view_students''] [''view_students'']"
  let ?bn = "no_fields\<lparr>permissionName := Some ''view_students''\<rparr>"
  let ?bi = "no_fields\<lparr>permissionId := Some 2\<rparr>"
  let ?q = "\<lparr>p_id = 2, p_name = ''view_students''\<rparr>"
  have a: "answers demo_pool = None"
    by (simp add: demo_pool_def)
  have r: "''view_students'' \<in> spec_RolePermissions demo_pool ''Instructor''"
    by (simp add: spec_RolePermissions_def demo_pool_def)
  have hb: "''view_students'' \<in> set (or_array (grantPermissions ?bb) [])
      \<and> ''view_students'' \<in> set (or_array (revokePermissions ?bb) [])"
    by (simp add: bulk_body_def no_fields_def or_array_def)
  have hn: "grantPermissions ?bn = None \<and> revokePermissions ?bn = None
         \<and> truthy_str (permissionName ?bn) \<and> \<not> truthy_num (permissionId ?bn)"
    by (simp add: no_fields_def truthy_str_def truthy_num_def)
  have n: "the (permissionName ?bn) = ''view_students''"
    by simp
  have hi: "grantPermissions ?bi = None \<and> revokePermissions ?bi = None
         \<and> \<not> (truthy_str (permissionName ?bi) \<and> \<not> truthy_num (permissionId ?bi))
         \<and> ?q \<in> set (permissions demo_pool) \<and> permissionId ?bi = Some (p_id ?q)"
    by (simp add: no_fields_def truthy_str_def truthy_num_def demo_pool_def)
  have q: "p_name ?q = ''view_students''"
    by simp
  from C3_revoke_wins [OF a, where b = ?bb and n = "''view_students''" and u = 7] hb
  have 1: "\<exists>v. fst (getUserPermissions 7 (snd (updateUserPermission 7 ?bb demo_pool))) = UserData v
          \<and> ''view_students'' \<notin> set (effectivePermissions v)"
    by blast
  from C3_revoke_wins [OF a, where b = ?bn and u = 7] hn
  have "\<exists>v. fst (getUserPermissions 7 (snd (revokeUserPermission 7 ?bn
              (snd (grantUserPermission 7 ?bn demo_pool))))) = UserData v
          \<and> the (permissionName ?bn) \<notin> set (effectivePermissions v)"
    by blast
  then have 2: "\<exists>v. fst (getUserPermissions 7 (snd (revokeUserPermission 7 ?bn
              (snd (grantUserPermission 7 ?bn demo_pool))))) = UserData v
          \<and> ''view_students'' \<notin> set (effectivePermissions v)"
    unfolding n .
  from C3_revoke_wins [OF a, where b = ?bi and q = ?q and u = 7] hi
  have "\<exists>v. fst (getUserPermissions 7 (snd (revokeUserPermission 7 ?bi
              (snd (grantUserPermission 7 ?bi demo_pool))))) = UserData v
          \<and> p_name ?q \<notin> set (effectivePermissions v)"
    by blast
  then have 3: "\<exists>v. fst (getUserPermissions 7 (snd (revokeUserPermission 7 ?bi
              (snd (grantUserPermission 7 ?bi demo_pool))))) = UserData v
          \<and> ''view_students'' \<notin> set (effectivePermissions v)"
    unfolding q .
  from a r 1 2 3 show ?thesis by blast
qed

section \<open>C4: unknown permission names\<close>

text \<open>
  C4. When the backend answers: a bulk update answers success and writes exactly the
  upserts of the catalog entries its two name lists resolve to, so that dropping the
  names without a catalog entry from the request changes nothing in the table written;
  a single update that gives a permissionName with no catalog entry (and no usable
  permissionId) answers 404 "Permission not found", having sent only the SELECT, with
  the override table as it was.
\<close>

theorem C4_unknown_names:
  assumes "answers w = None"
  shows "(grantPermissions b \<noteq> None \<or> revokePermissions b \<noteq> None \<longrightarrow>
            fst (updateUserPermission u b w) = Success ''User permissions updated''
          \<and> user_permissions (snd (updateUserPermission u b w)) =
              bulk_upsert (pair_key w) u ''revoke''
                (filter (\<lambda>p. p_name p \<in> set (or_array (revokePermissions b) [])) (permissions w))
                (bulk_upsert (pair_key w) u ''grant''
                   (filter (\<lambda>p. p_name p \<in> set (or_array (grantPermissions b) [])) (permissions w))
                   (user_permissions w))
          \<and> user_permissions (snd (updateUserPermission u b w)) =
              user_permissions (snd (updateUserPermission u
                (b\<lparr>grantPermissions := map_option (known w) (grantPermissions b),
                   revokePermissions := map_option (known w) (revokePermissions b)\<rparr>) w)))
    \<and> (grantPermissions b = None \<and> revokePermissions b = None
          \<and> permissionName b = Some n \<and> n \<noteq> [] \<and> \<not> truthy_num (permissionId b)
          \<and> n \<notin> p_name ` set (permissions w) \<longrightarrow>
            fst (updateUserPermission u b w) = Status404 ''Permission not found''
          \<and> user_permissions (snd (updateUserPermission u b w)) = user_permissions w
          \<and> issued (snd (updateUserPermission u b w)) = issued w @ [SELECT_id_FROM_permissions])"
proof (intro conjI impI)
  assume bulk: "grantPermissions b \<noteq> None \<or> revokePermissions b \<noteq> None"
  let ?b' = "b\<lparr>grantPermissions := map_option (known w) (grantPermissions b),
                 revokePermissions := map_option (known w) (revokePermissions b)\<rparr>"
  have bulk': "grantPermissions ?b' \<noteq> None \<or> revokePermissions ?b' \<noteq> None"
    using bulk by auto
  show "fst (updateUserPermission u b w) = Success ''User permissions updated''"
    using assms bulk by (rule updateUserPermission_bulk_ok(1))
  show "user_permissions (snd (updateUserPermission u b w)) =
              bulk_upsert (pair_key w) u ''revoke''
                (filter (\<lambda>p. p_name p \<in> set (or_array (revokePermissions b) [])) (permissions w))
                (bulk_upsert (pair_key w) u ''grant''
                   (filter (\<lambda>p. p_name p \<in> set (or_array (grantPermissions b) [])) (permissions w))
                   (user_permissions w))"
    using updateUserPermission_bulk_ok(2) [OF assms bulk, of u]
    by (simp add: select_permissions_in_def)
  show "user_permissions (snd (updateUserPermission u b w)) =
          user_permissions (snd (updateUserPermission u ?b' w))"
    using updateUserPermission_bulk_ok(2) [OF assms bulk, of u]
      updateUserPermission_bulk_ok(2) [OF assms bulk', of u]
    by (simp add: or_array_known select_permissions_in_known)
next
  assume h: "grantPermissions b = None \<and> revokePermissions b = None
          \<and> permissionName b = Some n \<and> n \<noteq> [] \<and> \<not> truthy_num (permissionId b)
          \<and> n \<notin> p_name ` set (permissions w)"
  then have "select_permission_id (the (permissionName b)) w = []"
    by (auto simp: select_permission_id_def filter_empty_conv)
  moreover have "truthy_str (permissionName b)"
    using h by (simp add: truthy_str_def)
  ultimately have r: "updateUserPermission u b w =
           (Status404 ''Permission not found'', sent SELECT_id_FROM_permissions w)"
    using assms h by (simp add: updateUserPermission_not_found)
  show "fst (updateUserPermission u b w) = Status404 ''Permission not found''"
    and "user_permissions (snd (updateUserPermission u b w)) = user_permissions w"
    and "issued (snd (updateUserPermission u b w)) = issued w @ [SELECT_id_FROM_permissions]"
    by (simp_all add: r)
qed

theorem C4_unknown_names_witness:
  "answers demo_pool = None
   \<and> fst (updateUserPermission 7 (bulk_body [''edit_syllabus'', ''fly''] [''dig'']) demo_pool)
       = Success ''User permissions updated''
   \<and> user_permissions (snd (updateUserPermission 7
         (bulk_body [''edit_syllabus'', ''fly''] [''dig'']) demo_pool))
       = [\<lparr>up_userId = 7, up_permissionId = 3, up_type = ''grant''\<rparr>]
   \<and> fst (updateUserPermission 7 (no_fields\<lparr>permissionName := Some ''fly'', type' := Some ''grant''\<rparr>)
         demo_pool) = Status404 ''Permission not found''
   \<and> user_permissions (snd (updateUserPermission 7
         (no_fields\<lparr>permissionName := Some ''fly'', type' := Some ''grant''\<rparr>) demo_pool)) = []"
proof -
  let ?b = "bulk_body [''edit_syllabus'', ''fly''] [''dig'']"
  let ?s = "no_fields\<lparr>permissionName := Some ''fly'', type' := Some ''grant''\<rparr>"
  have a: "answers demo_pool = None"
    by (simp add: demo_pool_def)
  have b: "grantPermissions ?b \<noteq> None \<or> revokePermissions ?b \<noteq> None"
    by (simp add: bulk_body_def no_fields_def)
  have s: "grantPermissions ?s = None \<and> revokePermissions ?s = None
          \<and> permissionName ?s = Some ''fly'' \<and> ''fly'' \<noteq> [] \<and> \<not> truthy_num (permissionId ?s)
          \<and> ''fly'' \<notin> p_name ` set (permissions demo_pool)"
    by (simp add: no_fields_def truthy_num_def demo_pool_def)
  have e: "bulk_upsert (pair_key demo_pool) 7 ''revoke''
                (filter (\<lambda>p. p_name p \<in> set (or_array (revokePermissions ?b) [])) (permissions demo_pool))
                (bulk_upsert (pair_key demo_pool) 7 ''grant''
                   (filter (\<lambda>p. p_name p \<in> set (or_array (grantPermissions ?b) [])) (permissions demo_pool))
                   (user_permissions demo_pool))
        = [\<lparr>up_userId = 7, up_permissionId = 3, up_type = ''grant''\<rparr>]"
    by code_simp
  have u: "user_permissions demo_pool = []"
    by (simp add: demo_pool_def)
  from C4_unknown_names [OF a, where b = ?b and u = 7] b
  have "fst (updateUserPermission 7 ?b demo_pool) = Success ''User permissions updated''
     \<and> user_permissions (snd (updateUserPermission 7 ?b demo_pool)) =
         bulk_upsert (pair_key demo_pool) 7 ''revoke''
                (filter (\<lambda>p. p_name p \<in> set (or_array (revokePermissions ?b) [])) (permissions demo_pool))
                (bulk_upsert (pair_key demo_pool) 7 ''grant''
                   (filter (\<lambda>p. p_name p \<in> set (or_array (grantPermissions ?b) [])) (permissions demo_pool))
                   (user_permissions demo_pool))"
    by blast
  with e have "fst (updateUserPermission 7 ?b demo_pool) = Success ''User permissions updated''
     \<and> user_permissions (snd (updateUserPermission 7 ?b demo_pool))
       = [\<lparr>up_userId = 7, up_permissionId = 3, up_type = ''grant''\<rparr>]"
    by simp
  moreover from C4_unknown_names [OF a, where b = ?s and n = "''fly''" and u = 7] s
  have "fst (updateUserPermission 7 ?s demo_pool) = Status404 ''Permission not found''
     \<and> user_permissions (snd (updateUserPermission 7 ?s demo_pool)) = user_permissions demo_pool"
    by blast
  ultimately show ?thesis using a u by simp
qed

section \<open>C5: the role-policy replace\<close>

text \<open>
  C5. When the backend answers and the catalog's ids are distinct (\<^verbatim>\<open>permissions.id\<close> is
  the key the joins use), \<^verbatim>\<open>updateRolePermissions\<close> with the names \<open>S\<close> for role \<open>r\<close>
  answers success, and \<^verbatim>\<open>getRolePermissions\<close> for \<open>r\<close> then returns, as a set, exactly the
  names of \<open>S\<close> with a catalog entry. The replace is full: afterwards the rows of \<open>r\<close> are
  the rows of the resolved names and nothing else, the rows of other roles are as they
  were, and a second identical call answers success and leaves the table as the first did.
\<close>

theorem C5_role_replace:
  assumes "answers w = None" and "distinct (map p_id (permissions w))"
  shows "fst (updateRolePermissions r (Some S) w) = Success ''Role permissions updated''
    \<and> (\<exists>v. fst (getRolePermissions r (snd (updateRolePermissions r (Some S) w))) = RoleData v
          \<and> set (permissions_field v) = set S \<inter> p_name ` set (permissions w))
    \<and> filter (\<lambda>rp. rp_role rp = r) (role_permissions (snd (updateRolePermissions r (Some S) w)))
        = map (\<lambda>p. \<lparr>rp_role = r, rp_permissionId = p_id p\<rparr>)
            (filter (\<lambda>p. p_name p \<in> set S) (permissions w))
    \<and> filter (\<lambda>rp. rp_role rp \<noteq> r) (role_permissions (snd (updateRolePermissions r (Some S) w)))
        = filter (\<lambda>rp. rp_role rp \<noteq> r) (role_permissions w)
    \<and> fst (updateRolePermissions r (Some S) (snd (updateRolePermissions r (Some S) w)))
        = Success ''Role permissions updated''
    \<and> role_permissions (snd (updateRolePermissions r (Some S)
          (snd (updateRolePermissions r (Some S) w))))
        = role_permissions (snd (updateRolePermissions r (Some S) w))"
proof -
  let ?w' = "snd (updateRolePermissions r (Some S) w)"
  note ok = updateRolePermissions_ok [OF assms(1), of r S]
  note ok' = updateRolePermissions_ok [OF ok(3), of r S]
  have get: "\<exists>v. fst (getRolePermissions r ?w') = RoleData v
          \<and> set (permissions_field v) = set S \<inter> p_name ` set (permissions w)"
    using spec_RolePermissions_replaced [OF assms(2) ok(2) ok(4)]
    by (simp add: getRolePermissions_def query_rows_ok [OF ok(3)] respond_def
        set_select_role_perms)
  have mine: "filter (\<lambda>rp. rp_role rp = r) (role_permissions ?w')
        = map (\<lambda>p. \<lparr>rp_role = r, rp_permissionId = p_id p\<rparr>)
            (filter (\<lambda>p. p_name p \<in> set S) (permissions w))"
    by (simp add: ok(2) replaced_rows_def select_permissions_in_def filter_map comp_def)
  have others: "filter (\<lambda>rp. rp_role rp \<noteq> r) (role_permissions ?w')
        = filter (\<lambda>rp. rp_role rp \<noteq> r) (role_permissions w)"
    by (simp add: ok(2) replaced_rows_def filter_map comp_def)
  have again: "role_permissions (snd (updateRolePermissions r (Some S) ?w')) = role_permissions ?w'"
    using ok'(2) replaced_rows_again [OF ok(2) ok(4)] ok(2) by simp
  from ok(1) get mine others ok'(1) again show ?thesis by blast
qed

theorem C5_role_replace_witness:
  "answers demo_pool = None \<and> distinct (map p_id (permissions demo_pool))
   \<and> fst (updateRolePermissions ''Instructor'' (Some [''edit_syllabus'', ''fly'']) demo_pool)
       = Success ''Role permissions updated''
   \<and> (\<exists>v. fst (getRolePermissions ''Instructor''
              (snd (updateRolePermissions ''Instructor'' (Some [''edit_syllabus'', ''fly''])
                 demo_pool))) = RoleData v
          \<and> set (permissions_field v) = {''edit_syllabus''})"
proof -
  have a: "answers demo_pool = None"
    by (simp add: demo_pool_def)
  have d: "distinct (map p_id (permissions demo_pool))"
    by (simp add: demo_pool_def)
  have e: "set [''edit_syllabus'', ''fly''] \<inter> p_name ` set (permissions demo_pool)
      = {''edit_syllabus''}"
    by (simp add: demo_pool_def)
  from C5_role_replace [OF a d, of "''Instructor''" "[''edit_syllabus'', ''fly'']"]
  have "fst (updateRolePermissions ''Instructor'' (Some [''edit_syllabus'', ''fly'']) demo_pool)
       = Success ''Role permissions updated''
   \<and> (\<exists>v. fst (getRolePermissions ''Instructor''
              (snd (updateRolePermissions ''Instructor'' (Some [''edit_syllabus'', ''fly''])
                 demo_pool))) = RoleData v
          \<and> set (permissions_field v)
             = set [''edit_syllabus'', ''fly''] \<inter> p_name ` set (permissions demo_pool))"
    by blast
  then show ?thesis
    unfolding e using a d by blast
qed

section \<open>C6: reset of all overrides\<close>

text \<open>
  C6. When the backend answers, \<^verbatim>\<open>resetUserPermissions\<close> answers success on every
  store, deletes exactly the override rows of the user, and a second reset answers
  success again and leaves the table as the first did. The resolver then answers with
  empty grantedPermissions and revokedPermissions, and effectivePermissions equal, as a
  set, to rolePermissions (as a list: rolePermissions with each name kept once).
\<close>

theorem C6_reset:
  assumes "answers w = None"
  shows "fst (resetUserPermissions u w) = Success ''User permissions reset''
    \<and> user_permissions (snd (resetUserPermissions u w))
        = filter (\<lambda>r. up_userId r \<noteq> u) (user_permissions w)
    \<and> fst (resetUserPermissions u (snd (resetUserPermissions u w)))
        = Success ''User permissions reset''
    \<and> user_permissions (snd (resetUserPermissions u (snd (resetUserPermissions u w))))
        = user_permissions (snd (resetUserPermissions u w))
    \<and> (\<exists>v. fst (getUserPermissions u (snd (resetUserPermissions u w))) = UserData v
          \<and> grantedPermissions v = [] \<and> revokedPermissions v = []
          \<and> set (effectivePermissions v) = set (rolePermissions v)
          \<and> effectivePermissions v = new_Set (rolePermissions v)
          \<and> set (rolePermissions v) = spec_RolePermissions w (role v))"
proof -
  let ?w' = "snd (resetUserPermissions u w)"
  have a': "answers ?w' = None"
    using assms by (simp add: resetUserPermissions_ok answers_sent)
  have rows: "user_permissions ?w' = filter (\<lambda>r. up_userId r \<noteq> u) (user_permissions w)"
    using assms by (simp add: resetUserPermissions_ok)
  have again: "user_permissions (snd (resetUserPermissions u ?w')) = user_permissions ?w'"
    using a' rows by (simp add: resetUserPermissions_ok [of ?w'])
  have "u \<notin> up_userId ` set (user_permissions ?w')"
    by (auto simp: rows)
  then have none: "select_user_perms u ?w' = []"
    by (rule select_user_perms_none)
  have rp: "spec_RolePermissions ?w' r = spec_RolePermissions w r" for r
    by (simp add: spec_RolePermissions_def resetUserPermissions_tables)
  have "\<exists>v. fst (getUserPermissions u ?w') = UserData v
          \<and> grantedPermissions v = [] \<and> revokedPermissions v = []
          \<and> set (effectivePermissions v) = set (rolePermissions v)
          \<and> effectivePermissions v = new_Set (rolePermissions v)
          \<and> set (rolePermissions v) = spec_RolePermissions w (role v)"
    by (simp add: getUserPermissions_ok [OF a'] Let_def none set_new_Set
        set_select_role_perms rp)
  then show ?thesis
    using assms a' rows again by (simp add: resetUserPermissions_ok)
qed

theorem C6_reset_witness:
  "answers demo_overridden = None
   \<and> user_permissions (snd (resetUserPermissions 7 demo_overridden)) = []
   \<and> fst (resetUserPermissions 7 (snd (resetUserPermissions 7 demo_overridden)))
       = Success ''User permissions reset''
   \<and> (\<exists>v. fst (getUserPermissions 7 (snd (resetUserPermissions 7 demo_overridden))) = UserData v
          \<and> grantedPermissions v = [] \<and> revokedPermissions v = []
          \<and> set (effectivePermissions v) = set (rolePermissions v))"
proof -
  have a: "answers demo_overridden = None"
    by (simp add: demo_overridden_def demo_pool_def)
  have e: "filter (\<lambda>r. up_userId r \<noteq> 7) (user_permissions demo_overridden) = []"
    by (simp add: demo_overridden_def demo_pool_def)
  from C6_reset [OF a, of 7] e a show ?thesis
    by auto
qed

section \<open>C7: a request without any field\<close>

text \<open>
  The claim C7 as stated (such a request is rejected before any storage call) fails:
  for user 7 of the scenario the handler answers success and has sent the DELETE.
\<close>

theorem C7_counterexample:
  "fst (updateUserPermission 7 no_fields demo_overridden) = Success ''User permission updated''
   \<and> issued (snd (updateUserPermission 7 no_fields demo_overridden))
       = [DELETE_user_permissions_pair]"
  by code_simp

text \<open>
  C7 (amended). A request with none of grantPermissions, revokePermissions, permissionId,
  permissionName and type is not rejected. The handler takes the single path with no
  type, sends one DELETE for (userId, NULL), which matches no row, and, when the backend
  answers it, responds success; the override table is unchanged.
\<close>

theorem C7_no_validation:
  assumes "\<not> rejects w"
  shows "fst (updateUserPermission u no_fields w) = Success ''User permission updated''
    \<and> issued (snd (updateUserPermission u no_fields w)) = issued w @ [DELETE_user_permissions_pair]
    \<and> user_permissions (snd (updateUserPermission u no_fields w)) = user_permissions w"
  using assms
  by (simp add: updateUserPermission_def no_fields_def Let_def truthy_str_def truthy_num_def
      query_write_def delete_user_permission_def respond_def)

theorem C7_no_validation_witness:
  "\<not> rejects demo_overridden
   \<and> fst (updateUserPermission 7 no_fields demo_overridden) = Success ''User permission updated''
   \<and> issued (snd (updateUserPermission 7 no_fields demo_overridden))
       = issued demo_overridden @ [DELETE_user_permissions_pair]
   \<and> user_permissions (snd (updateUserPermission 7 no_fields demo_overridden))
       = user_permissions demo_overridden"
proof -
  have a: "\<not> rejects demo_overridden"
    by (simp add: rejects_def demo_overridden_def demo_pool_def)
  from C7_no_validation [OF a, of 7] a show ?thesis
    by blast
qed

section \<open>C8: no transaction\<close>

text \<open>
  The claim C8 as stated (all or nothing) fails. On a backend that answers three
  statements and then rejects, the bulk update answers 500 with the grant row written and
  the revoke row not; on one that answers a single statement, the role replace answers
  500 with the role's rows deleted and nothing inserted, which is also the state any
  reader sees between the DELETE and the INSERT of a call that succeeds.
\<close>

theorem C8_counterexample:
  "fst (updateUserPermission 7 (bulk_body [''edit_syllabus''] [''view_students'']) (failing_pool 3))
     = Status500 ''Server error''
   \<and> user_permissions (failing_pool 3) = []
   \<and> user_permissions (snd (updateUserPermission 7
        (bulk_body [''edit_syllabus''] [''view_students'']) (failing_pool 3)))
     = [\<lparr>up_userId = 7, up_permissionId = 3, up_type = ''grant''\<rparr>]
   \<and> fst (updateRolePermissions ''Instructor'' (Some [''create_quiz'']) (failing_pool 1))
     = Status500 ''Server error''
   \<and> select_role_perms ''Instructor'' (failing_pool 1) = [''create_quiz'', ''view_students'']
   \<and> select_role_perms ''Instructor''
        (snd (updateRolePermissions ''Instructor'' (Some [''create_quiz'']) (failing_pool 1))) = []"
  by code_simp

text \<open>
  C8 (amended). The handlers send their statements one by one, outside any transaction.
  A bulk update answers success with the grant upserts and then the revoke upserts
  applied, or answers 500 with the override table unchanged or with the grant upserts
  alone applied. A role replace answers success with the role's rows replaced, or answers
  500 with the table unchanged or with the role's rows deleted and none inserted.
\<close>

theorem C8_no_transaction:
  assumes "grantPermissions b \<noteq> None \<or> revokePermissions b \<noteq> None"
  shows "((fst (updateUserPermission u b w) = Success ''User permissions updated'' \<and>
           user_permissions (snd (updateUserPermission u b w)) =
             bulk_upsert (pair_key w) u ''revoke''
               (select_permissions_in (or_array (revokePermissions b) []) w)
               (bulk_upsert (pair_key w) u ''grant''
                  (select_permissions_in (or_array (grantPermissions b) []) w)
                  (user_permissions w)))
        \<or> (fst (updateUserPermission u b w) = Status500 ''Server error'' \<and>
            (user_permissions (snd (updateUserPermission u b w)) = user_permissions w \<or>
             user_permissions (snd (updateUserPermission u b w)) =
               bulk_upsert (pair_key w) u ''grant''
                 (select_permissions_in (or_array (grantPermissions b) []) w)
                 (user_permissions w))))
    \<and> ((fst (updateRolePermissions r (Some names) w) = Success ''Role permissions updated'' \<and>
           role_permissions (snd (updateRolePermissions r (Some names) w)) = replaced_rows r names w)
        \<or> (fst (updateRolePermissions r (Some names) w) = Status500 ''Server error'' \<and>
            (role_permissions (snd (updateRolePermissions r (Some names) w)) = role_permissions w \<or>
             role_permissions (snd (updateRolePermissions r (Some names) w)) =
               filter (\<lambda>rp. rp_role rp \<noteq> r) (role_permissions w))))"
  using updateUserPermission_bulk_cases [OF assms, of u w] updateRolePermissions_cases [of r names w]
  by blast

theorem C8_no_transaction_witness:
  "fst (updateUserPermission 7 (bulk_body [''edit_syllabus''] [''view_students'']) (failing_pool 3))
     = Status500 ''Server error''
   \<and> user_permissions (snd (updateUserPermission 7
        (bulk_body [''edit_syllabus''] [''view_students'']) (failing_pool 3)))
     = bulk_upsert (pair_key (failing_pool 3)) 7 ''grant''
         (select_permissions_in
            (or_array (grantPermissions (bulk_body [''edit_syllabus''] [''view_students''])) [])
            (failing_pool 3))
         (user_permissions (failing_pool 3))
   \<and> fst (updateRolePermissions ''Instructor'' (Some [''create_quiz'']) (failing_pool 1))
     = Status500 ''Server error''
   \<and> role_permissions (snd (updateRolePermissions ''Instructor'' (Some [''create_quiz''])
        (failing_pool 1)))
     = filter (\<lambda>rp. rp_role rp \<noteq> ''Instructor'') (role_permissions (failing_pool 1))"
proof -
  let ?b = "bulk_body [''edit_syllabus''] [''view_students'']"
  have b: "grantPermissions ?b \<noteq> None \<or> revokePermissions ?b \<noteq> None"
    by (simp add: bulk_body_def no_fields_def)
  have 1: "fst (updateUserPermission 7 ?b (failing_pool 3)) \<noteq> Success ''User permissions updated''"
    by code_simp
  have 2: "user_permissions (snd (updateUserPermission 7 ?b (failing_pool 3)))
      \<noteq> user_permissions (failing_pool 3)"
    by code_simp
  have 3: "fst (updateRolePermissions ''Instructor'' (Some [''create_quiz'']) (failing_pool 1))
      \<noteq> Success ''Role permissions updated''"
    by code_simp
  have 4: "role_permissions (snd (updateRolePermissions ''Instructor'' (Some [''create_quiz''])
        (failing_pool 1))) \<noteq> role_permissions (failing_pool 1)"
    by code_simp
  from C8_no_transaction [OF b, of 7 "failing_pool 3" "''Instructor''" "[''create_quiz'']"]
  have "fst (updateUserPermission 7 ?b (failing_pool 3)) = Status500 ''Server error''
   \<and> user_permissions (snd (updateUserPermission 7 ?b (failing_pool 3)))
     = bulk_upsert (pair_key (failing_pool 3)) 7 ''grant''
         (select_permissions_in (or_array (grantPermissions ?b) []) (failing_pool 3))
         (user_permissions (failing_pool 3))"
    using 1 2 by blast
  moreover
  from C8_no_transaction [OF b, of 7 "failing_pool 1" "''Instructor''" "[''create_quiz'']"]
  have "fst (updateRolePermissions ''Instructor'' (Some [''create_quiz'']) (failing_pool 1))
     = Status500 ''Server error''
   \<and> role_permissions (snd (updateRolePermissions ''Instructor'' (Some [''create_quiz''])
        (failing_pool 1)))
     = filter (\<lambda>rp. rp_role rp \<noteq> ''Instructor'') (role_permissions (failing_pool 1))"
    using 3 4 by blast
  ultimately show ?thesis by blast
qed

section \<open>C9: the frame of the bulk path\<close>

text \<open>
  C9. A bulk update for user \<open>u\<close> never deletes a row: every pair with a row before has a
  row after. For a pair of another user, or a pair whose permission id belongs to no
  catalog entry named in grantPermissions or revokePermissions, the rows of the pair after
  the call are the rows before it. Both hold whatever the backend answers.
\<close>

theorem C9_bulk_frame:
  assumes "grantPermissions b \<noteq> None \<or> revokePermissions b \<noteq> None"
    and "u' \<noteq> u \<or> (\<forall>p \<in> set (permissions w). p_id p = pid \<longrightarrow>
           p_name p \<notin> set (or_array (grantPermissions b) []) \<union>
                        set (or_array (revokePermissions b) []))"
  shows "filter (\<lambda>r. pair_of r = (u', pid)) (user_permissions (snd (updateUserPermission u b w)))
           = filter (\<lambda>r. pair_of r = (u', pid)) (user_permissions w)
    \<and> pair_of ` set (user_permissions w)
         \<subseteq> pair_of ` set (user_permissions (snd (updateUserPermission u b w)))"
proof -
  let ?G = "select_permissions_in (or_array (grantPermissions b) []) w"
  let ?R = "select_permissions_in (or_array (revokePermissions b) []) w"
  have g: "u' \<noteq> u \<or> pid \<notin> p_id ` set ?G" and r: "u' \<noteq> u \<or> pid \<notin> p_id ` set ?R"
    using assms(2) by (auto simp: select_permissions_in_def)
  have keep: "pair_of ` set (user_permissions w)
      \<subseteq> pair_of ` set (bulk_upsert (pair_key w) u ''revoke'' ?R
            (bulk_upsert (pair_key w) u ''grant'' ?G (user_permissions w)))"
    using pairs_kept_bulk_upsert [of "user_permissions w" "pair_key w" u "''grant''" ?G]
      pairs_kept_bulk_upsert [of "bulk_upsert (pair_key w) u ''grant'' ?G (user_permissions w)"
        "pair_key w" u "''revoke''" ?R]
    by blast
  from updateUserPermission_bulk_cases [OF assms(1), of u w] show ?thesis
    using frame_bulk_upsert [OF g] frame_bulk_upsert [OF r] keep
      pairs_kept_bulk_upsert [of "user_permissions w" "pair_key w" u "''grant''" ?G]
    by (elim disjE conjE) simp_all
qed

theorem C9_bulk_frame_witness:
  "filter (\<lambda>r. pair_of r = (7, 1)) (user_permissions (snd (updateUserPermission 7
       (bulk_body [''edit_syllabus''] [''view_students'']) demo_overridden)))
     = [\<lparr>up_userId = 7, up_permissionId = 1, up_type = ''revoke''\<rparr>]
   \<and> pair_of ` set (user_permissions demo_overridden)
       \<subseteq> pair_of ` set (user_permissions (snd (updateUserPermission 7
            (bulk_body [''edit_syllabus''] [''view_students'']) demo_overridden)))"
proof -
  let ?b = "bulk_body [''edit_syllabus''] [''view_students'']"
  have a: "grantPermissions ?b \<noteq> None \<or> revokePermissions ?b \<noteq> None"
    by (simp add: bulk_body_def no_fields_def)
  have f: "7 \<noteq> (7::nat) \<or> (\<forall>p \<in> set (permissions demo_overridden). p_id p = 1 \<longrightarrow>
           p_name p \<notin> set (or_array (grantPermissions ?b) []) \<union>
                        set (or_array (revokePermissions ?b) []))"
    by (simp add: demo_overridden_def demo_pool_def bulk_body_def no_fields_def or_array_def)
  have e: "filter (\<lambda>r. pair_of r = (7, 1)) (user_permissions demo_overridden)
      = [\<lparr>up_userId = 7, up_permissionId = 1, up_type = ''revoke''\<rparr>]"
    by (simp add: demo_overridden_def demo_pool_def pair_of_def)
  from C9_bulk_frame [OF a f] e show ?thesis
    by simp
qed

section \<open>C10: userCount\<close>

text \<open>
  C10. When the backend answers its one SELECT, \<^verbatim>\<open>getRolePermissions\<close> answers role
  data whose userCount is 0 and whose permissions are the names joined for the role;
  replacing the whole \<^verbatim>\<open>users\<close> table does not change the response.
\<close>

theorem C10_userCount:
  assumes "\<not> rejects w"
  shows "fst (getRolePermissions r w) = RoleData
           \<lparr>roleId = r, roleName = r, permissions_field = select_role_perms r w, userCount = 0\<rparr>
    \<and> fst (getRolePermissions r (w\<lparr>users := us\<rparr>)) = fst (getRolePermissions r w)"
  using assms
  by (simp add: getRolePermissions_def query_rows_def respond_def rejects_def
      select_role_perms_def cong: if_cong)

theorem C10_userCount_witness:
  "\<not> rejects demo_pool
   \<and> u_role ` set (users demo_pool) = {Some ''Instructor''}
   \<and> fst (getRolePermissions ''Instructor'' demo_pool) = RoleData
        \<lparr>roleId = ''Instructor'', roleName = ''Instructor'',
         permissions_field = [''create_quiz'', ''view_students''], userCount = 0\<rparr>"
proof -
  have a: "\<not> rejects demo_pool"
    by (simp add: rejects_def demo_pool_def)
  have u: "u_role ` set (users demo_pool) = {Some ''Instructor''}"
    by (simp add: demo_pool_def)
  have e: "select_role_perms ''Instructor'' demo_pool = [''create_quiz'', ''view_students'']"
    by code_simp
  from C10_userCount [OF a, of "''Instructor''"] a u e show ?thesis
    by simp
qed

end
